theory Spec2Isabelle
  imports Main
begin

section \<open>Python values, classes and exceptions\<close>

text \<open>
  The session engine of \<^verbatim>\<open>autobahn/wamp/protocol.py\<close> handles dynamically typed
  values: request and subscription ids, topics, handlers, option objects, and the
  positional/keyword payload of messages. The universe below has one constructor per kind
  of value the engine tests for: \<^verbatim>\<open>type(topic) in (str, unicode)\<close>,
  \<^verbatim>\<open>type(subscription) in [int, long]\<close>, \<^verbatim>\<open>callable(handler)\<close>,
  \<^verbatim>\<open>isinstance(.., wamp.options.Publish)\<close>, \<^verbatim>\<open>isinstance(.., wamp.options.Subscribe)\<close>.
  An option object is represented by its \<^verbatim>\<open>__dict__\<close>, a callable by an identity.
  A keyword dictionary is an association list with string keys.
\<close>

datatype pyval =
    PNone
  | PInt int
  | PStr string
  | PList "pyval list"
  | PDict "(string \<times> pyval) list"
  | PCallable nat
  | PPublishOptions "(string \<times> pyval) list"
  | PSubscribeOptions "(string \<times> pyval) list"

type_synonym pykwargs = "(string \<times> pyval) list"

text \<open>
  Modelled from the spec: \<^verbatim>\<open>Pattern\<close> (the URI-pattern class, outside the source
  file): "a single exact-match pattern" with a "literal URI". The engine reads the URI
  both as the attribute \<^verbatim>\<open>_uri\<close> and through the accessor \<^verbatim>\<open>uri()\<close>;
  both are the selector \<open>uri\<close> here. The second field is the pattern's target kind;
  the value of the constant \<^verbatim>\<open>Pattern.URI_TARGET_HANDLER\<close> plays no role below.
\<close>

datatype pattern = Pattern (uri: pyval) (target: nat)

definition URI_TARGET_HANDLER :: nat where
  "URI_TARGET_HANDLER = 2"

text \<open>
  An exception class: its name, whether it is \<^verbatim>\<open>ApplicationError\<close> or a subclass of
  it (what \<^verbatim>\<open>isinstance(exc, exception.ApplicationError)\<close> tests), and the class
  attribute \<^verbatim>\<open>_wampuris\<close>, absent for \<open>None\<close>.
\<close>

datatype pyclass = PyClass (cname: string) (app_error: bool) (wampuris: "pattern list option")

text \<open>
  An exception value: its class, the attributes \<^verbatim>\<open>args\<close> and \<^verbatim>\<open>kwargs\<close>
  (\<open>None\<close> when \<^verbatim>\<open>hasattr\<close> is false), and its truth value, which
  \<^verbatim>\<open>if not exc\<close> reads (true for every exception whose class defines neither
  \<^verbatim>\<open>__nonzero__\<close> nor \<^verbatim>\<open>__len__\<close>).
\<close>

record exc =
  exc_class :: pyclass
  exc_args :: "pyval list option"
  exc_kwargs :: "pykwargs option"
  exc_truthy :: bool

text \<open>
  Calling a class, \<^verbatim>\<open>ecls(*args, **kwargs)\<close>, runs application code; the class
  table is a parameter of the model. \<open>None\<close> is a constructor call that raised.
\<close>

type_synonym ctor = "pyclass \<Rightarrow> pyval list \<Rightarrow> pykwargs \<Rightarrow> exc option"

definition ApplicationErrorClass :: pyclass where
  "ApplicationErrorClass = PyClass ''ApplicationError'' True None"

text \<open>
  Modelled from the spec: the constructor of \<^verbatim>\<open>exception.ApplicationError\<close> (module
  \<^verbatim>\<open>autobahn.wamp.exception\<close>, outside the source file): "a generic application
  error value carrying the raw URI and payload verbatim -- this path never fails". The
  source reads the URI back as \<^verbatim>\<open>exc.args[0]\<close>, the positional payload as
  \<^verbatim>\<open>exc.args[1:]\<close> and the keyword payload as \<^verbatim>\<open>exc.kwargs\<close>.
\<close>

definition ApplicationError :: "pyval \<Rightarrow> pyval list \<Rightarrow> pykwargs \<Rightarrow> exc" where
  "ApplicationError error args kwargs =
     \<lparr>exc_class = ApplicationErrorClass, exc_args = Some (error # args),
      exc_kwargs = Some kwargs, exc_truthy = True\<rparr>"

text \<open>The exceptions the engine itself raises, or lets escape.\<close>

datatype pyerror =
    AssertionError
  | IndexError
  | AttributeError
  | TransportLost
  | ProtocolError string int
  | AlreadyCalledError
  | SendFailed

section \<open>Messages\<close>

text \<open>
  The message classes of \<^verbatim>\<open>autobahn.wamp.message\<close> that the engine reads or builds.
  An absent \<^verbatim>\<open>args\<close> or \<^verbatim>\<open>kwargs\<close> of an \<^verbatim>\<open>Error\<close> message is the
  constructor's default \<^verbatim>\<open>None\<close>. The last field of \<open>Publish\<close> and \<open>Subscribe\<close>
  holds the keyword arguments spread from an option object. \<open>OtherMessage\<close> stands for
  every message class the dispatch does not name.
\<close>

datatype message =
    Published (request: int) (publication: int)
  | Subscribed (request: int) (subscription: int)
  | Unsubscribed (request: int)
  | Error (request: int) (error: pyval) (args: "pyval list option") (kwargs: "pykwargs option")
  | Publish (request: int) (topic: pyval) (pargs: "pyval list") (pkwargs: pykwargs) (options: pykwargs)
  | Subscribe (request: int) (topic: pyval) (options: pykwargs)
  | Unsubscribe (request: int) (subscription: int)
  | OtherMessage

section \<open>The error translator: class \<^verbatim>\<open>Peer\<close>\<close>

record peer =
  ecls_to_uri_pat :: "pyclass \<rightharpoonup> pattern list"
  uri_to_ecls :: "pyval \<rightharpoonup> pyclass"

text \<open>
  \<^verbatim>\<open>Peer.define\<close> (\<open>define\<close> is a keyword of Isabelle, hence the prefix).
  Both branches assert on \<^verbatim>\<open>hasattr(exception, '_wampuris')\<close>.
  In the first branch the forward map is written before \<^verbatim>\<open>_wampuris[0]\<close> is read, so
  an empty pattern list leaves the forward entry behind and raises. The name
  \<^verbatim>\<open>Pattern\<close> is taken to be the URI-pattern class of the repository.
\<close>

definition peer_define :: "'a peer_scheme \<Rightarrow> pyclass \<Rightarrow> pyval \<Rightarrow> 'a peer_scheme \<times> (pyerror + unit)" where
  "peer_define self exception error' =
     (if error' = PNone then
        (case wampuris exception of
           None \<Rightarrow> (self, Inl AssertionError)
         | Some pats \<Rightarrow>
             (let self1 = self\<lparr>ecls_to_uri_pat := (ecls_to_uri_pat self)(exception \<mapsto> pats)\<rparr>
              in case pats of
                   [] \<Rightarrow> (self1, Inl IndexError)
                 | p # _ \<Rightarrow>
                     (self1\<lparr>uri_to_ecls := (uri_to_ecls self1)(uri p \<mapsto> exception)\<rparr>, Inr ())))
      else
        (case wampuris exception of
           Some _ \<Rightarrow> (self, Inl AssertionError)
         | None \<Rightarrow>
             (self\<lparr>ecls_to_uri_pat :=
                      (ecls_to_uri_pat self)(exception \<mapsto> [Pattern error' URI_TARGET_HANDLER]),
                    uri_to_ecls := (uri_to_ecls self)(error' \<mapsto> exception)\<rparr>, Inr ())))"

text \<open>
  \<^verbatim>\<open>Peer._message_from_exception\<close>. For an application error the source evaluates
  \<^verbatim>\<open>exc.args[0]\<close>, \<^verbatim>\<open>exc.args[1:]\<close> and \<^verbatim>\<open>exc.kwargs\<close> in this order;
  a missing attribute or an empty \<^verbatim>\<open>args\<close> raises. For any other exception the
  URI comes from the forward map (\<^verbatim>\<open>[0]._uri\<close> raises on an empty pattern list) or is
  the reserved runtime-error URI, and the payload is whatever \<^verbatim>\<open>hasattr\<close> finds.
\<close>

definition message_from_exception :: "'a peer_scheme \<Rightarrow> int \<Rightarrow> exc \<Rightarrow> pyerror + message" where
  "message_from_exception self request' exc =
     (if app_error (exc_class exc) then
        (case exc_args exc of
           None \<Rightarrow> Inl AttributeError
         | Some [] \<Rightarrow> Inl IndexError
         | Some (a0 # rest) \<Rightarrow>
             (case exc_kwargs exc of
                None \<Rightarrow> Inl AttributeError
              | Some kw \<Rightarrow> Inr (Error request' a0 (Some rest) (Some kw))))
      else
        (case (case ecls_to_uri_pat self (exc_class exc) of
                 Some [] \<Rightarrow> Inl IndexError
               | Some (p # _) \<Rightarrow> Inr (uri p)
               | None \<Rightarrow> Inr (PStr ''wamp.error.runtime_error'')) of
           Inl e \<Rightarrow> Inl e
         | Inr error' \<Rightarrow>
             (case exc_args exc of
                Some a \<Rightarrow>
                  (case exc_kwargs exc of
                     Some kw \<Rightarrow> Inr (Error request' error' (Some a) (Some kw))
                   | None \<Rightarrow> Inr (Error request' error' (Some a) None))
              | None \<Rightarrow> Inr (Error request' error' None None))))"

text \<open>
  Truth value of an optional payload: \<^verbatim>\<open>if msg.args\<close>, \<^verbatim>\<open>if msg.kwargs\<close> hold
  for a non-empty sequence or dictionary, and fail for \<^verbatim>\<open>None\<close> and for an empty one.
\<close>

definition truthy :: "'b list option \<Rightarrow> bool" where
  "truthy p = (case p of None \<Rightarrow> False | Some xs \<Rightarrow> xs \<noteq> [])"

text \<open>
  \<^verbatim>\<open>Peer._exception_from_message\<close>. The \<^verbatim>\<open>try\<close> block swallows a raising
  constructor (\<open>None\<close> from the class table) and leaves \<^verbatim>\<open>exc = None\<close>. A payload
  that is spread (\<^verbatim>\<open>*msg.args\<close>, \<^verbatim>\<open>**msg.kwargs\<close>) is truthy, so \<open>the\<close> is
  applied to \<open>Some\<close> only; a payload that is not spread passes nothing.
\<close>

definition exception_from_message :: "ctor \<Rightarrow> 'a peer_scheme \<Rightarrow> message \<Rightarrow> exc" where
  "exception_from_message new self msg =
     (let exc =
        (case uri_to_ecls self (error msg) of
           Some ecls \<Rightarrow>
             (if truthy (kwargs msg) then
                (if truthy (args msg) then new ecls (the (args msg)) (the (kwargs msg))
                 else new ecls [] (the (kwargs msg)))
              else
                (if truthy (args msg) then new ecls (the (args msg)) []
                 else new ecls [] []))
         | None \<Rightarrow> None)
      in case (case exc of Some e \<Rightarrow> if exc_truthy e then Some e else None | None \<Rightarrow> None) of
           Some e \<Rightarrow> e
         | None \<Rightarrow>
             (if truthy (kwargs msg) then
                (if truthy (args msg) then ApplicationError (error msg) (the (args msg)) (the (kwargs msg))
                 else ApplicationError (error msg) [] (the (kwargs msg)))
              else
                (if truthy (args msg) then ApplicationError (error msg) (the (args msg)) []
                 else ApplicationError (error msg) [] [])))"

text \<open>
  What a constructor receives from an optional payload: the elements that are spread, none
  for \<^verbatim>\<open>None\<close> and for an empty payload. Used to state the properties below.
\<close>

definition payload :: "'b list option \<Rightarrow> 'b list" where
  "payload p = (case p of None \<Rightarrow> [] | Some xs \<Rightarrow> xs)"

section \<open>Completions: Twisted's \<^verbatim>\<open>Deferred\<close>\<close>

text \<open>
  A completion is "a single-fire resolve/reject sink". The engine creates one with
  \<^verbatim>\<open>Deferred()\<close> and fires it with \<^verbatim>\<open>callback\<close> or \<^verbatim>\<open>errback\<close>; the
  caller and the ledger hold the same object, so completions live in a store indexed by
  handles. Firing a completion that has already fired raises
  \<^verbatim>\<open>AlreadyCalledError\<close> and leaves it as it is. Callbacks that the application
  attaches to a completion are application code and are not part of the model.
\<close>

datatype deferred = NotCalled | CalledBack pyval | ErredBack exc

text \<open>
  A transport handle. Modelled from the spec: \<^verbatim>\<open>IMessageTransport.send\<close> (outside the
  source file): "fire-and-forget send of one framed message, [...] fails if the channel is
  gone". \<open>send_raises\<close> tells whether the channel is gone.
\<close>

datatype transport = Transport (tid: nat) (send_raises: bool)

section \<open>The session engine: class \<^verbatim>\<open>WampProtocol\<close>\<close>

text \<open>
  The fields of \<^verbatim>\<open>WampProtocol.__init__\<close>, on top of those of \<^verbatim>\<open>Peer\<close>. The
  last three fields are the environment the engine acts on: the store of completions, the
  next unused handle, and the messages handed to \<^verbatim>\<open>send\<close> so far.
\<close>

record session = peer +
  transport :: "transport option"
  publish_reqs :: "int \<rightharpoonup> nat"
  subscribe_reqs :: "int \<rightharpoonup> nat \<times> pyval"
  unsubscribe_reqs :: "int \<rightharpoonup> nat \<times> int"
  call_reqs :: "int \<rightharpoonup> nat"
  register_reqs :: "int \<rightharpoonup> nat"
  unregister_reqs :: "int \<rightharpoonup> nat"
  subscriptions :: "int \<rightharpoonup> pyval"
  registrations :: "int \<rightharpoonup> pyval"
  deferreds :: "nat \<Rightarrow> deferred"
  next_deferred :: nat
  sent :: "message list"

definition Deferred :: "session \<Rightarrow> session \<times> nat" where
  "Deferred self =
     (self\<lparr>deferreds := (deferreds self)(next_deferred self := NotCalled),
            next_deferred := Suc (next_deferred self)\<rparr>, next_deferred self)"

definition callback :: "session \<Rightarrow> nat \<Rightarrow> pyval \<Rightarrow> session \<times> (pyerror + unit)" where
  "callback self d result =
     (case deferreds self d of
        NotCalled \<Rightarrow> (self\<lparr>deferreds := (deferreds self)(d := CalledBack result)\<rparr>, Inr ())
      | _ \<Rightarrow> (self, Inl AlreadyCalledError))"

definition errback :: "session \<Rightarrow> nat \<Rightarrow> exc \<Rightarrow> session \<times> (pyerror + unit)" where
  "errback self d fail =
     (case deferreds self d of
        NotCalled \<Rightarrow> (self\<lparr>deferreds := (deferreds self)(d := ErredBack fail)\<rparr>, Inr ())
      | _ \<Rightarrow> (self, Inl AlreadyCalledError))"

definition send :: "session \<Rightarrow> transport \<Rightarrow> message \<Rightarrow> session \<times> (pyerror + unit)" where
  "send self t msg =
     (if send_raises t then (self, Inl SendFailed)
      else (self\<lparr>sent := sent self @ [msg]\<rparr>, Inr ()))"

definition onOpen :: "session \<Rightarrow> transport \<Rightarrow> session" where
  "onOpen self t = self\<lparr>transport := Some t\<rparr>"

definition onClose :: "session \<Rightarrow> session" where
  "onClose self = self\<lparr>transport := None\<rparr>"

text \<open>
  What the local variable \<^verbatim>\<open>d\<close> of the \<^verbatim>\<open>Error\<close> branch is bound to: the
  completion popped from the Publish ledger, the first component of the pair popped from
  the Subscribe ledger (\<^verbatim>\<open>d, _ = ...pop(..)\<close>), or the whole pair popped from the
  Unsubscribe ledger (\<^verbatim>\<open>d = ...pop(..)\<close>). \<open>None\<close> is Python's \<^verbatim>\<open>None\<close>.
\<close>

datatype popped = ADeferred nat | ATuple nat int

text \<open>
  \<^verbatim>\<open>WampProtocol.onMessage\<close>. A raise leaves the state as it is at that point, so
  the state is returned next to the outcome. The success branches read the ledger entry
  (\<^verbatim>\<open>self._publish_reqs[msg.request]\<close>); the \<^verbatim>\<open>Error\<close> branch pops it. In
  \<^verbatim>\<open>d.errback(..)\<close> the attribute is looked up first, which raises for a tuple.
\<close>

fun onMessage :: "ctor \<Rightarrow> session \<Rightarrow> message \<Rightarrow> session \<times> (pyerror + bool)" where
  "onMessage new self (Published request' publication') =
     (case publish_reqs self request' of
        Some d \<Rightarrow>
          (case callback self d (PInt publication') of
             (self1, Inl e) \<Rightarrow> (self1, Inl e)
           | (self1, Inr _) \<Rightarrow> (self1, Inr True))
      | None \<Rightarrow>
          (self, Inl (ProtocolError ''PUBLISHED received for non-pending request ID'' request')))"
| "onMessage new self (Subscribed request' subscription') =
     (case subscribe_reqs self request' of
        Some (d, handler) \<Rightarrow>
          (let self1 = self\<lparr>subscriptions := (subscriptions self)(subscription' \<mapsto> handler)\<rparr>
           in case callback self1 d (PInt subscription') of
                (self2, Inl e) \<Rightarrow> (self2, Inl e)
              | (self2, Inr _) \<Rightarrow> (self2, Inr True))
      | None \<Rightarrow>
          (self, Inl (ProtocolError ''SUBSCRIBED received for non-pending request ID'' request')))"
| "onMessage new self (Unsubscribed request') =
     (case unsubscribe_reqs self request' of
        Some (d, subscription') \<Rightarrow>
          (let self1 =
                 (if subscriptions self subscription' \<noteq> None
                  then self\<lparr>subscriptions := (subscriptions self)(subscription' := None)\<rparr>
                  else self)
           in case callback self1 d PNone of
                (self2, Inl e) \<Rightarrow> (self2, Inl e)
              | (self2, Inr _) \<Rightarrow> (self2, Inr True))
      | None \<Rightarrow>
          (self, Inl (ProtocolError ''UNSUBSCRIBED received for non-pending request ID'' request')))"
| "onMessage new self (Error request' error' args' kwargs') =
     (let (self1, d) =
            (case publish_reqs self request' of
               Some p \<Rightarrow>
                 (self\<lparr>publish_reqs := (publish_reqs self)(request' := None)\<rparr>, Some (ADeferred p))
             | None \<Rightarrow>
                 (case subscribe_reqs self request' of
                    Some (p, _) \<Rightarrow>
                      (self\<lparr>subscribe_reqs := (subscribe_reqs self)(request' := None)\<rparr>,
                       Some (ADeferred p))
                  | None \<Rightarrow>
                      (case unsubscribe_reqs self request' of
                         Some (p, s) \<Rightarrow>
                           (self\<lparr>unsubscribe_reqs := (unsubscribe_reqs self)(request' := None)\<rparr>,
                            Some (ATuple p s))
                       | None \<Rightarrow> (self, None))))
      in case d of
           Some (ADeferred p) \<Rightarrow>
             (case errback self1 p
                     (exception_from_message new self1 (Error request' error' args' kwargs')) of
                (self2, Inl e) \<Rightarrow> (self2, Inl e)
              | (self2, Inr _) \<Rightarrow> (self2, Inr True))
         | Some (ATuple _ _) \<Rightarrow> (self1, Inl AttributeError)
         | None \<Rightarrow>
             (self1, Inl (ProtocolError ''ERROR received for non-pending request ID'' request')))"
| "onMessage new self _ = (self, Inr False)"

text \<open>The argument checks of the public operations.\<close>

definition is_str :: "pyval \<Rightarrow> bool" where
  "is_str v = (case v of PStr _ \<Rightarrow> True | _ \<Rightarrow> False)"

definition is_callable :: "pyval \<Rightarrow> bool" where
  "is_callable v = (case v of PCallable _ \<Rightarrow> True | _ \<Rightarrow> False)"

text \<open>
  \<^verbatim>\<open>WampProtocol.publish\<close>. Modelled from the spec: \<^verbatim>\<open>util.id()\<close>
  (\<^verbatim>\<open>newRequestId\<close>, outside the source file) "produces a fresh identifier"; the
  identifier it returns is the first argument here, and nothing is assumed about it.
  An \<^verbatim>\<open>options\<close> keyword that holds a publish-options object is popped from the
  keyword payload and its \<^verbatim>\<open>__dict__\<close> is spread into the message.
\<close>

definition publish ::
  "int \<Rightarrow> session \<Rightarrow> pyval \<Rightarrow> pyval list \<Rightarrow> pykwargs \<Rightarrow> session \<times> (pyerror + nat)" where
  "publish id' self topic' args' kwargs' =
     (if \<not> is_str topic' then (self, Inl AssertionError)
      else case transport self of
        None \<Rightarrow> (self, Inl TransportLost)
      | Some t \<Rightarrow>
          (let request' = id';
               (self1, d) = Deferred self;
               self2 = self1\<lparr>publish_reqs := (publish_reqs self1)(request' \<mapsto> d)\<rparr>;
               msg = (case map_of kwargs' ''options'' of
                        Some (PPublishOptions opts) \<Rightarrow>
                          Publish request' topic' args'
                            (filter (\<lambda>kv. fst kv \<noteq> ''options'') kwargs') opts
                      | _ \<Rightarrow> Publish request' topic' args' kwargs' [])
           in case send self2 t msg of
                (self3, Inl e) \<Rightarrow> (self3, Inl e)
              | (self3, Inr _) \<Rightarrow> (self3, Inr d)))"

text \<open>\<^verbatim>\<open>WampProtocol.subscribe\<close>; \<^verbatim>\<open>options = None\<close> is \<open>PNone\<close>.\<close>

definition subscribe ::
  "int \<Rightarrow> session \<Rightarrow> pyval \<Rightarrow> pyval \<Rightarrow> pyval \<Rightarrow> session \<times> (pyerror + nat)" where
  "subscribe id' self handler topic' options' =
     (if \<not> is_callable handler then (self, Inl AssertionError)
      else if \<not> is_str topic' then (self, Inl AssertionError)
      else if \<not> (options' = PNone \<or> (case options' of PSubscribeOptions _ \<Rightarrow> True | _ \<Rightarrow> False))
        then (self, Inl AssertionError)
      else case transport self of
        None \<Rightarrow> (self, Inl TransportLost)
      | Some t \<Rightarrow>
          (let request' = id';
               (self1, d) = Deferred self;
               self2 = self1\<lparr>subscribe_reqs := (subscribe_reqs self1)(request' \<mapsto> (d, handler))\<rparr>;
               msg = (case options' of
                        PSubscribeOptions opts \<Rightarrow> Subscribe request' topic' opts
                      | _ \<Rightarrow> Subscribe request' topic' [])
           in case send self2 t msg of
                (self3, Inl e) \<Rightarrow> (self3, Inl e)
              | (self3, Inr _) \<Rightarrow> (self3, Inr d)))"

text \<open>\<^verbatim>\<open>WampProtocol.unsubscribe\<close>.\<close>

definition unsubscribe :: "int \<Rightarrow> session \<Rightarrow> pyval \<Rightarrow> session \<times> (pyerror + nat)" where
  "unsubscribe id' self subscription' =
     (case subscription' of
        PInt s \<Rightarrow>
          (case transport self of
             None \<Rightarrow> (self, Inl TransportLost)
           | Some t \<Rightarrow>
               (let request' = id';
                    (self1, d) = Deferred self;
                    self2 = self1\<lparr>unsubscribe_reqs := (unsubscribe_reqs self1)(request' \<mapsto> (d, s))\<rparr>;
                    msg = Unsubscribe request' s
                in case send self2 t msg of
                     (self3, Inl e) \<Rightarrow> (self3, Inl e)
                   | (self3, Inr _) \<Rightarrow> (self3, Inr d)))
      | _ \<Rightarrow> (self, Inl AssertionError))"

section \<open>Example sessions\<close>

text \<open>
  A class that inherits the constructor of \<^verbatim>\<open>Exception\<close>: it takes no keyword
  arguments, stores the positional ones in \<^verbatim>\<open>args\<close> and sets no
  \<^verbatim>\<open>kwargs\<close> attribute.
\<close>

definition plain_exception :: ctor where
  "plain_exception ecls args' kwargs' =
     (if kwargs' \<noteq> [] then None
      else Some \<lparr>exc_class = ecls, exc_args = Some args', exc_kwargs = None, exc_truthy = True\<rparr>)"

text \<open>The state that \<^verbatim>\<open>WampProtocol.__init__\<close> sets up, with no completion yet.\<close>

definition WampProtocol :: session where
  "WampProtocol =
     \<lparr>ecls_to_uri_pat = Map.empty, uri_to_ecls = Map.empty, transport = None,
      publish_reqs = Map.empty, subscribe_reqs = Map.empty, unsubscribe_reqs = Map.empty,
      call_reqs = Map.empty, register_reqs = Map.empty, unregister_reqs = Map.empty,
      subscriptions = Map.empty, registrations = Map.empty,
      deferreds = (\<lambda>_. NotCalled), next_deferred = 0, sent = []\<rparr>"

text \<open>An open session, and the same session with one publish request (id 1) in flight.\<close>

definition example_open :: session where
  "example_open = onOpen WampProtocol (Transport 1 False)"

definition example_pending :: session where
  "example_pending = fst (publish 1 example_open (PStr ''com.example.topic'') [PInt 23] [])"

text \<open>An open session whose channel is gone: \<^verbatim>\<open>send\<close> raises.\<close>

definition example_broken :: session where
  "example_broken = onOpen WampProtocol (Transport 2 True)"

text \<open>
  A subscription lifecycle: subscribe (request 1), \<^verbatim>\<open>Subscribed(1, 77)\<close>, unsubscribe
  (request 2), \<^verbatim>\<open>Unsubscribed(2)\<close>, and a second unsubscribe of the same
  subscription (request 3).
\<close>

definition example_subscribing :: session where
  "example_subscribing =
     fst (subscribe 1 example_open (PCallable 3) (PStr ''com.example.topic'') PNone)"

definition example_subscribed :: session where
  "example_subscribed = fst (onMessage plain_exception example_subscribing (Subscribed 1 77))"

definition example_unsubscribing :: session where
  "example_unsubscribing = fst (unsubscribe 2 example_subscribed (PInt 77))"

definition example_unsubscribed :: session where
  "example_unsubscribed = fst (onMessage plain_exception example_unsubscribing (Unsubscribed 2))"

definition example_unsubscribing_again :: session where
  "example_unsubscribing_again = fst (unsubscribe 3 example_unsubscribed (PInt 77))"

text \<open>
  The state that \<^verbatim>\<open>Peer.__init__\<close> sets up, four application classes without
  \<^verbatim>\<open>_wampuris\<close> (\<open>Denied\<close> derives from \<^verbatim>\<open>ApplicationError\<close>), and a
  translator on which \<open>NotFound\<close> and then \<open>Gone\<close> were defined for the same URI.
\<close>

definition Peer :: peer where
  "Peer = \<lparr>ecls_to_uri_pat = Map.empty, uri_to_ecls = Map.empty\<rparr>"

definition NotFound :: pyclass where
  "NotFound = PyClass ''NotFound'' False None"

definition Gone :: pyclass where
  "Gone = PyClass ''Gone'' False None"

definition Timeout :: pyclass where
  "Timeout = PyClass ''Timeout'' False None"

definition Denied :: pyclass where
  "Denied = PyClass ''Denied'' True None"

definition example_peer :: peer where
  "example_peer =
     fst (peer_define
            (fst (peer_define
                   (fst (peer_define
                          (fst (peer_define Peer NotFound (PStr ''com.example.gone'')))
                          Gone (PStr ''com.example.gone'')))
                   Timeout (PStr ''com.example.timeout'')))
            Denied (PStr ''com.example.denied''))"

text \<open>
  A class whose constructor takes no argument and passes a fixed text on:
  \<^verbatim>\<open>def __init__(self): Exception.__init__(self, "timed out")\<close>.
\<close>

definition fixed_text_exception :: ctor where
  "fixed_text_exception ecls args' kwargs' =
     (if args' = [] \<and> kwargs' = []
      then Some \<lparr>exc_class = ecls, exc_args = Some [PStr ''timed out''], exc_kwargs = None,
                 exc_truthy = True\<rparr>
      else None)"

text \<open>
  Exception values: \<^verbatim>\<open>NotFound(1, 2)\<close>, \<^verbatim>\<open>Gone(1, 2)\<close>, \<^verbatim>\<open>Timeout()\<close>, and
  a \<open>Denied\<close> carrying its own URI as an application error does.
\<close>

definition not_found :: exc where
  "not_found = \<lparr>exc_class = NotFound, exc_args = Some [PInt 1, PInt 2], exc_kwargs = None,
                 exc_truthy = True\<rparr>"

definition gone :: exc where
  "gone = \<lparr>exc_class = Gone, exc_args = Some [PInt 1, PInt 2], exc_kwargs = None,
            exc_truthy = True\<rparr>"

definition timed_out :: exc where
  "timed_out = \<lparr>exc_class = Timeout, exc_args = Some [PStr ''timed out''], exc_kwargs = None,
                 exc_truthy = True\<rparr>"

definition denied :: exc where
  "denied = \<lparr>exc_class = Denied, exc_args = Some [PStr ''com.example.other'', PInt 1],
              exc_kwargs = Some [], exc_truthy = True\<rparr>"

text \<open>
  More application errors of class \<open>Denied\<close>: one that carries the URI its class is
  defined for, built by a constructor that puts this URI in front of its arguments
  (\<^verbatim>\<open>def __init__(self, *args, **kwargs): ApplicationError.__init__(self,
  "com.example.denied", *args, **kwargs)\<close>); one whose own constructor passed nothing on,
  so that \<^verbatim>\<open>args\<close> is empty and \<^verbatim>\<open>kwargs\<close> was never set; and one with
  \<^verbatim>\<open>args\<close> but without \<^verbatim>\<open>kwargs\<close>.
\<close>

definition fixed_uri_application_error :: ctor where
  "fixed_uri_application_error ecls args' kwargs' =
     Some \<lparr>exc_class = ecls, exc_args = Some (PStr ''com.example.denied'' # args'),
            exc_kwargs = Some kwargs', exc_truthy = True\<rparr>"

definition denied_here :: exc where
  "denied_here = \<lparr>exc_class = Denied, exc_args = Some [PStr ''com.example.denied'', PInt 1],
                   exc_kwargs = Some [], exc_truthy = True\<rparr>"

definition bare_denied :: exc where
  "bare_denied = \<lparr>exc_class = Denied, exc_args = Some [], exc_kwargs = None, exc_truthy = True\<rparr>"

definition unkeyed_denied :: exc where
  "unkeyed_denied = \<lparr>exc_class = Denied, exc_args = Some [PStr ''com.example.denied''],
                      exc_kwargs = None, exc_truthy = True\<rparr>"

text \<open>
  A class that declares an empty \<^verbatim>\<open>_wampuris\<close> list, and an instance of it.
\<close>

definition Unpatterned :: pyclass where
  "Unpatterned = PyClass ''Unpatterned'' False (Some [])"

definition unpatterned :: exc where
  "unpatterned = \<lparr>exc_class = Unpatterned, exc_args = Some [PInt 1], exc_kwargs = None,
                   exc_truthy = True\<rparr>"

section \<open>Properties of the dispatch and of the public operations\<close>

lemma example_pending_ledgers:
  "publish_reqs example_pending = [1 \<mapsto> 0]"
  "subscribe_reqs example_pending = Map.empty"
  "unsubscribe_reqs example_pending = Map.empty"
  "transport example_pending = Some (Transport 1 False)"
  by (simp_all add: example_pending_def example_open_def publish_def onOpen_def WampProtocol_def
      Deferred_def send_def is_str_def)

lemmas example_defs =
  example_open_def onOpen_def WampProtocol_def subscribe_def unsubscribe_def publish_def
  Deferred_def send_def callback_def errback_def is_str_def is_callable_def

lemma example_subscribing_eq:
  "example_subscribing =
     example_open\<lparr>deferreds := (deferreds example_open)(0 := NotCalled), next_deferred := 1,
       subscribe_reqs := [1 \<mapsto> (0, PCallable 3)],
       sent := [Subscribe 1 (PStr ''com.example.topic'') []]\<rparr>"
  by (simp add: example_subscribing_def example_defs)

lemma example_subscribed_eq:
  "example_subscribed =
     example_subscribing\<lparr>subscriptions := [77 \<mapsto> PCallable 3],
       deferreds := (deferreds example_subscribing)(0 := CalledBack (PInt 77))\<rparr>"
  by (simp add: example_subscribed_def example_subscribing_eq example_defs)

lemma example_unsubscribing_eq:
  "example_unsubscribing =
     example_subscribed\<lparr>deferreds := (deferreds example_subscribed)(1 := NotCalled),
       next_deferred := 2, unsubscribe_reqs := [2 \<mapsto> (1, 77)],
       sent := [Subscribe 1 (PStr ''com.example.topic'') [], Unsubscribe 2 77]\<rparr>"
  by (simp add: example_unsubscribing_def example_subscribed_eq example_subscribing_eq example_defs)

lemma example_unsubscribed_eq:
  "example_unsubscribed =
     example_unsubscribing\<lparr>subscriptions := Map.empty,
       deferreds := (deferreds example_unsubscribing)(1 := CalledBack PNone)\<rparr>"
  by (simp add: example_unsubscribed_def example_unsubscribing_eq example_subscribed_eq
      example_subscribing_eq example_defs)

lemma example_unsubscribing_again_eq:
  "example_unsubscribing_again =
     example_unsubscribed\<lparr>deferreds := (deferreds example_unsubscribed)(2 := NotCalled),
       next_deferred := 3, unsubscribe_reqs := [2 \<mapsto> (1, 77), 3 \<mapsto> (2, 77)],
       sent := [Subscribe 1 (PStr ''com.example.topic'') [], Unsubscribe 2 77, Unsubscribe 3 77]\<rparr>"
  by (simp add: example_unsubscribing_again_def example_unsubscribed_eq example_unsubscribing_eq
      example_subscribed_eq example_subscribing_eq example_defs)

lemmas example_eqs =
  example_unsubscribing_again_eq example_unsubscribed_eq example_unsubscribing_eq
  example_subscribed_eq example_subscribing_eq

text \<open>
  Claim C2. A \<^verbatim>\<open>Published\<close>, \<^verbatim>\<open>Subscribed\<close> or \<^verbatim>\<open>Unsubscribed\<close> message
  whose request id is not in the ledger of its kind, and an \<^verbatim>\<open>Error\<close> message whose
  request id is in none of the three ledgers the dispatch probes, makes
  \<^verbatim>\<open>onMessage\<close> raise \<^verbatim>\<open>ProtocolError\<close>; the state it leaves is the state it
  found, so no ledger and no session-state entry is touched.
\<close>

theorem onMessage_non_pending:
  "(publish_reqs st r = None \<longrightarrow>
      onMessage new st (Published r p) =
        (st, Inl (ProtocolError ''PUBLISHED received for non-pending request ID'' r))) \<and>
   (subscribe_reqs st r = None \<longrightarrow>
      onMessage new st (Subscribed r s) =
        (st, Inl (ProtocolError ''SUBSCRIBED received for non-pending request ID'' r))) \<and>
   (unsubscribe_reqs st r = None \<longrightarrow>
      onMessage new st (Unsubscribed r) =
        (st, Inl (ProtocolError ''UNSUBSCRIBED received for non-pending request ID'' r))) \<and>
   (publish_reqs st r = None \<and> subscribe_reqs st r = None \<and> unsubscribe_reqs st r = None \<longrightarrow>
      onMessage new st (Error r u a k) =
        (st, Inl (ProtocolError ''ERROR received for non-pending request ID'' r)))"
  by simp

theorem onMessage_non_pending_witness:
  "publish_reqs example_pending 2 = None \<and>
   subscribe_reqs example_pending 1 = None \<and>
   unsubscribe_reqs example_pending 1 = None \<and>
   onMessage plain_exception example_pending (Published 2 5) =
     (example_pending, Inl (ProtocolError ''PUBLISHED received for non-pending request ID'' 2)) \<and>
   onMessage plain_exception example_pending (Subscribed 1 5) =
     (example_pending, Inl (ProtocolError ''SUBSCRIBED received for non-pending request ID'' 1)) \<and>
   onMessage plain_exception example_pending (Unsubscribed 1) =
     (example_pending, Inl (ProtocolError ''UNSUBSCRIBED received for non-pending request ID'' 1)) \<and>
   onMessage plain_exception example_pending (Error 2 (PStr ''com.example.foo'') None None) =
     (example_pending, Inl (ProtocolError ''ERROR received for non-pending request ID'' 2))"
  using onMessage_non_pending [of example_pending 2 plain_exception 5 5 "PStr ''com.example.foo''" None None]
    onMessage_non_pending [of example_pending 1 plain_exception 5 5 "PStr ''com.example.foo''" None None]
  by (simp add: example_pending_ledgers)

text \<open>
  Claim C7. Once \<^verbatim>\<open>onClose\<close> has cleared the transport handle, \<^verbatim>\<open>publish\<close>,
  \<^verbatim>\<open>subscribe\<close> and \<^verbatim>\<open>unsubscribe\<close> with valid arguments raise
  \<^verbatim>\<open>TransportLost\<close> and return the closed session as it was: nothing is sent, no
  completion is created and no ledger entry is inserted.
\<close>

theorem closed_session_rejects:
  "(is_str topic' \<longrightarrow>
      publish i (onClose st) topic' a k = (onClose st, Inl TransportLost)) \<and>
   (is_callable h \<and> is_str topic' \<and> (opts = PNone \<or> (\<exists>od. opts = PSubscribeOptions od)) \<longrightarrow>
      subscribe i (onClose st) h topic' opts = (onClose st, Inl TransportLost)) \<and>
   unsubscribe i (onClose st) (PInt s) = (onClose st, Inl TransportLost)"
  by (auto simp: publish_def subscribe_def unsubscribe_def onClose_def)

theorem closed_session_rejects_witness:
  "is_str (PStr ''com.example.topic'') \<and> is_callable (PCallable 3) \<and>
   publish 2 (onClose example_pending) (PStr ''com.example.topic'') [] [] =
     (onClose example_pending, Inl TransportLost) \<and>
   subscribe 2 (onClose example_pending) (PCallable 3) (PStr ''com.example.topic'') PNone =
     (onClose example_pending, Inl TransportLost) \<and>
   unsubscribe 2 (onClose example_pending) (PInt 9) = (onClose example_pending, Inl TransportLost)"
  using closed_session_rejects [of "PStr ''com.example.topic''" 2 example_pending "[]" "[]" "PCallable 3" PNone 9]
  by (simp add: is_str_def is_callable_def)

text \<open>
  Claim C3. The subscribe lifecycle, step by step and from any state. (1) \<^verbatim>\<open>subscribe\<close>
  on an open session registers request \<open>r\<close> with a fresh, unfired completion and the
  handler it was given. (2) For a pending subscribe request \<open>r\<close> with handler \<open>h\<close>,
  \<^verbatim>\<open>Subscribed(r, s)\<close> maps \<open>s\<close> to \<open>h\<close> in the subscriptions table and
  resolves the completion with \<open>s\<close>. (3) \<^verbatim>\<open>unsubscribe(s)\<close> registers request
  \<open>r\<close> with a fresh completion and \<open>s\<close>, leaving the table alone. (4) For a pending
  unsubscribe request, \<^verbatim>\<open>Unsubscribed(r)\<close> removes \<open>s\<close> from the table and resolves
  the completion with \<^verbatim>\<open>None\<close>. (5) When \<open>s\<close> is already absent, the removal is a
  no-op: the table is unchanged and the message is handled without a fault.
\<close>

theorem subscribe_lifecycle:
  "(transport st = Some t \<and> \<not> send_raises t \<and> is_callable h \<and> is_str topic' \<and>
    (opts = PNone \<or> (\<exists>od. opts = PSubscribeOptions od)) \<longrightarrow>
      (\<exists>st1 d. subscribe r st h topic' opts = (st1, Inr d) \<and>
         subscribe_reqs st1 r = Some (d, h) \<and> deferreds st1 d = NotCalled)) \<and>
   (subscribe_reqs st r = Some (d, h) \<and> deferreds st d = NotCalled \<longrightarrow>
      onMessage new st (Subscribed r s) =
        (st\<lparr>subscriptions := (subscriptions st)(s \<mapsto> h),
            deferreds := (deferreds st)(d := CalledBack (PInt s))\<rparr>, Inr True)) \<and>
   (transport st = Some t \<and> \<not> send_raises t \<longrightarrow>
      (\<exists>st1 d. unsubscribe r st (PInt s) = (st1, Inr d) \<and>
         unsubscribe_reqs st1 r = Some (d, s) \<and> deferreds st1 d = NotCalled \<and>
         subscriptions st1 = subscriptions st)) \<and>
   (unsubscribe_reqs st r = Some (d, s) \<and> deferreds st d = NotCalled \<longrightarrow>
      onMessage new st (Unsubscribed r) =
        (st\<lparr>subscriptions := (subscriptions st)(s := None),
            deferreds := (deferreds st)(d := CalledBack PNone)\<rparr>, Inr True)) \<and>
   (unsubscribe_reqs st r = Some (d, s) \<and> deferreds st d = NotCalled \<and> subscriptions st s = None \<longrightarrow>
      onMessage new st (Unsubscribed r) =
        (st\<lparr>deferreds := (deferreds st)(d := CalledBack PNone)\<rparr>, Inr True))"
proof (intro conjI impI)
  assume "transport st = Some t \<and> \<not> send_raises t \<and> is_callable h \<and> is_str topic' \<and>
    (opts = PNone \<or> (\<exists>od. opts = PSubscribeOptions od))"
  then show "\<exists>st1 d. subscribe r st h topic' opts = (st1, Inr d) \<and>
         subscribe_reqs st1 r = Some (d, h) \<and> deferreds st1 d = NotCalled"
    by (auto simp: subscribe_def Deferred_def send_def Let_def)
next
  assume "subscribe_reqs st r = Some (d, h) \<and> deferreds st d = NotCalled"
  then show "onMessage new st (Subscribed r s) =
        (st\<lparr>subscriptions := (subscriptions st)(s \<mapsto> h),
            deferreds := (deferreds st)(d := CalledBack (PInt s))\<rparr>, Inr True)"
    by (simp add: callback_def)
next
  assume "transport st = Some t \<and> \<not> send_raises t"
  then show "\<exists>st1 d. unsubscribe r st (PInt s) = (st1, Inr d) \<and>
         unsubscribe_reqs st1 r = Some (d, s) \<and> deferreds st1 d = NotCalled \<and>
         subscriptions st1 = subscriptions st"
    by (simp add: unsubscribe_def Deferred_def send_def Let_def)
next
  assume a: "unsubscribe_reqs st r = Some (d, s) \<and> deferreds st d = NotCalled"
  show "onMessage new st (Unsubscribed r) =
        (st\<lparr>subscriptions := (subscriptions st)(s := None),
            deferreds := (deferreds st)(d := CalledBack PNone)\<rparr>, Inr True)"
  proof (cases "subscriptions st s")
    case None
    then have "(subscriptions st)(s := None) = subscriptions st" by (simp add: fun_upd_idem)
    with a None show ?thesis by (simp add: callback_def)
  next
    case (Some v)
    with a show ?thesis by (simp add: callback_def)
  qed
next
  assume "unsubscribe_reqs st r = Some (d, s) \<and> deferreds st d = NotCalled \<and> subscriptions st s = None"
  then show "onMessage new st (Unsubscribed r) =
        (st\<lparr>deferreds := (deferreds st)(d := CalledBack PNone)\<rparr>, Inr True)"
    by (simp add: callback_def)
qed


theorem subscribe_lifecycle_witness:
  "transport example_open = Some (Transport 1 False) \<and> \<not> send_raises (Transport 1 False) \<and>
   is_callable (PCallable 3) \<and> is_str (PStr ''com.example.topic'') \<and>
   subscribe 1 example_open (PCallable 3) (PStr ''com.example.topic'') PNone =
     (example_subscribing, Inr 0) \<and>
   subscribe_reqs example_subscribing 1 = Some (0, PCallable 3) \<and>
   deferreds example_subscribing 0 = NotCalled \<and>
   onMessage plain_exception example_subscribing (Subscribed 1 77) = (example_subscribed, Inr True) \<and>
   subscriptions example_subscribed 77 = Some (PCallable 3) \<and>
   deferreds example_subscribed 0 = CalledBack (PInt 77) \<and>
   transport example_subscribed = Some (Transport 1 False) \<and>
   unsubscribe 2 example_subscribed (PInt 77) = (example_unsubscribing, Inr 1) \<and>
   unsubscribe_reqs example_unsubscribing 2 = Some (1, 77) \<and>
   deferreds example_unsubscribing 1 = NotCalled \<and>
   onMessage plain_exception example_unsubscribing (Unsubscribed 2) = (example_unsubscribed, Inr True) \<and>
   subscriptions example_unsubscribed 77 = None \<and>
   deferreds example_unsubscribed 1 = CalledBack PNone \<and>
   unsubscribe_reqs example_unsubscribing_again 3 = Some (2, 77) \<and>
   deferreds example_unsubscribing_again 2 = NotCalled \<and>
   subscriptions example_unsubscribing_again 77 = None \<and>
   onMessage plain_exception example_unsubscribing_again (Unsubscribed 3) =
     (example_unsubscribing_again
        \<lparr>deferreds := (deferreds example_unsubscribing_again)(2 := CalledBack PNone)\<rparr>, Inr True)"
proof -
  have open': "transport example_open = Some (Transport 1 False) \<and> \<not> send_raises (Transport 1 False) \<and>
      is_callable (PCallable 3) \<and> is_str (PStr ''com.example.topic'')"
    by (simp add: example_defs)
  have sub: "subscribe 1 example_open (PCallable 3) (PStr ''com.example.topic'') PNone =
      (example_subscribing, Inr 0)"
    by (simp add: example_subscribing_eq) (simp add: example_defs)
  have subscribing: "subscribe_reqs example_subscribing 1 = Some (0, PCallable 3) \<and>
      deferreds example_subscribing 0 = NotCalled"
    by (simp add: example_subscribing_eq)
  have subscribed: "subscriptions example_subscribed 77 = Some (PCallable 3) \<and>
      deferreds example_subscribed 0 = CalledBack (PInt 77) \<and>
      transport example_subscribed = Some (Transport 1 False)"
    by (simp add: example_eqs) (simp add: example_defs)
  have unsub: "unsubscribe 2 example_subscribed (PInt 77) = (example_unsubscribing, Inr 1)"
    by (simp add: example_eqs) (simp add: example_defs)
  have unsubscribing: "unsubscribe_reqs example_unsubscribing 2 = Some (1, 77) \<and>
      deferreds example_unsubscribing 1 = NotCalled"
    by (simp add: example_eqs)
  have unsubscribed: "subscriptions example_unsubscribed 77 = None \<and>
      deferreds example_unsubscribed 1 = CalledBack PNone"
    by (simp add: example_eqs)
  have again: "unsubscribe_reqs example_unsubscribing_again 3 = Some (2, 77) \<and>
      deferreds example_unsubscribing_again 2 = NotCalled \<and>
      subscriptions example_unsubscribing_again 77 = None"
    by (simp add: example_eqs)
  have step2: "onMessage plain_exception example_subscribing (Subscribed 1 77) =
      (example_subscribed, Inr True)"
    using subscribe_lifecycle [where st = example_subscribing and r = 1 and d = 0
        and h = "PCallable 3" and s = 77 and new = plain_exception] subscribing
    by (simp del: onMessage.simps add: example_eqs example_defs)
  have step4: "onMessage plain_exception example_unsubscribing (Unsubscribed 2) =
      (example_unsubscribed, Inr True)"
    using subscribe_lifecycle [where st = example_unsubscribing and r = 2 and d = 1
        and s = 77 and new = plain_exception] unsubscribing
    by (simp del: onMessage.simps add: example_eqs example_defs)
  have step6: "onMessage plain_exception example_unsubscribing_again (Unsubscribed 3) =
     (example_unsubscribing_again
        \<lparr>deferreds := (deferreds example_unsubscribing_again)(2 := CalledBack PNone)\<rparr>, Inr True)"
    using subscribe_lifecycle [where st = example_unsubscribing_again and r = 3 and d = 2
        and s = 77 and new = plain_exception] again
    by blast
  from open' sub subscribing subscribed unsub unsubscribing unsubscribed again step2 step4 step6
  show ?thesis
    by blast
qed

text \<open>
  Claim C10. \<^verbatim>\<open>publish\<close>, \<^verbatim>\<open>subscribe\<close> and \<^verbatim>\<open>unsubscribe\<close> write
  their ledger entry before they call \<^verbatim>\<open>send\<close>: when \<^verbatim>\<open>send\<close> raises, the
  exception escapes, nothing has been sent, and the state that is left still holds the new
  completion and the new ledger entry for the request id.
\<close>

theorem ledger_entry_survives_failed_send:
  "transport st = Some t \<and> send_raises t \<longrightarrow>
     (is_str topic' \<longrightarrow>
        publish i st topic' a k =
          (st\<lparr>deferreds := (deferreds st)(next_deferred st := NotCalled),
              next_deferred := Suc (next_deferred st),
              publish_reqs := (publish_reqs st)(i \<mapsto> next_deferred st)\<rparr>, Inl SendFailed)) \<and>
     (is_callable h \<and> is_str topic' \<and> (opts = PNone \<or> (\<exists>od. opts = PSubscribeOptions od)) \<longrightarrow>
        subscribe i st h topic' opts =
          (st\<lparr>deferreds := (deferreds st)(next_deferred st := NotCalled),
              next_deferred := Suc (next_deferred st),
              subscribe_reqs := (subscribe_reqs st)(i \<mapsto> (next_deferred st, h))\<rparr>, Inl SendFailed)) \<and>
     unsubscribe i st (PInt s) =
       (st\<lparr>deferreds := (deferreds st)(next_deferred st := NotCalled),
           next_deferred := Suc (next_deferred st),
           unsubscribe_reqs := (unsubscribe_reqs st)(i \<mapsto> (next_deferred st, s))\<rparr>, Inl SendFailed)"
  by (auto simp: publish_def subscribe_def unsubscribe_def Deferred_def send_def Let_def)

theorem ledger_entry_survives_failed_send_witness:
  "transport example_broken = Some (Transport 2 True) \<and> send_raises (Transport 2 True) \<and>
   is_str (PStr ''com.example.topic'') \<and> is_callable (PCallable 3) \<and>
   snd (publish 4 example_broken (PStr ''com.example.topic'') [] []) = Inl SendFailed \<and>
   publish_reqs (fst (publish 4 example_broken (PStr ''com.example.topic'') [] [])) 4 = Some 0 \<and>
   sent (fst (publish 4 example_broken (PStr ''com.example.topic'') [] [])) = [] \<and>
   snd (subscribe 5 example_broken (PCallable 3) (PStr ''com.example.topic'') PNone) = Inl SendFailed \<and>
   subscribe_reqs (fst (subscribe 5 example_broken (PCallable 3) (PStr ''com.example.topic'') PNone)) 5
     = Some (0, PCallable 3) \<and>
   snd (unsubscribe 6 example_broken (PInt 77)) = Inl SendFailed \<and>
   unsubscribe_reqs (fst (unsubscribe 6 example_broken (PInt 77))) 6 = Some (0, 77)"
  using ledger_entry_survives_failed_send
    [of example_broken "Transport 2 True" "PStr ''com.example.topic''" 4 "[]" "[]" "PCallable 3" PNone 77]
    ledger_entry_survives_failed_send
    [of example_broken "Transport 2 True" "PStr ''com.example.topic''" 5 "[]" "[]" "PCallable 3" PNone 77]
    ledger_entry_survives_failed_send
    [of example_broken "Transport 2 True" "PStr ''com.example.topic''" 6 "[]" "[]" "PCallable 3" PNone 77]
  by (simp add: example_broken_def onOpen_def WampProtocol_def is_str_def is_callable_def)

text \<open>
  Claim C8, as the claim states it, fails: the only check on the topic is
  \<^verbatim>\<open>assert(type(topic) in (str, unicode))\<close>, which the empty string passes. On an
  open session \<^verbatim>\<open>publish("")\<close> creates a completion, registers request 7 in the
  Publish ledger, sends a \<^verbatim>\<open>Publish\<close> message with the empty topic and returns the
  completion.
\<close>

theorem publish_empty_topic_accepted:
  "publish 7 example_open (PStr []) [] [] =
     (example_open\<lparr>deferreds := (deferreds example_open)(0 := NotCalled),
        next_deferred := 1, publish_reqs := [7 \<mapsto> 0],
        sent := [Publish 7 (PStr []) [] [] []]\<rparr>, Inr 0)"
  by (simp add: publish_def example_open_def onOpen_def WampProtocol_def Deferred_def send_def
      is_str_def)

text \<open>
  Claim C8, amended. \<^verbatim>\<open>publish\<close> rejects a topic that is not a string with an
  assertion failure at the call site, whatever the transport, and leaves the state as it
  was. For every string topic, the empty one included, and an open transport whose
  \<^verbatim>\<open>send\<close> returns, it creates a completion, registers the request id in the Publish
  ledger, sends one \<^verbatim>\<open>Publish\<close> message carrying the id, the topic and the positional
  payload, and returns the completion.
\<close>

theorem publish_topic_check:
  "(\<not> is_str topic' \<longrightarrow> publish i st topic' a k = (st, Inl AssertionError)) \<and>
   (is_str topic' \<and> transport st = Some t \<and> \<not> send_raises t \<longrightarrow>
      (\<exists>k' o'. publish i st topic' a k =
          (st\<lparr>deferreds := (deferreds st)(next_deferred st := NotCalled),
              next_deferred := Suc (next_deferred st),
              publish_reqs := (publish_reqs st)(i \<mapsto> next_deferred st),
              sent := sent st @ [Publish i topic' a k' o']\<rparr>, Inr (next_deferred st))))"
  by (auto simp: publish_def Deferred_def send_def Let_def split: option.splits pyval.splits)

theorem publish_topic_check_witness:
  "\<not> is_str (PInt 5) \<and> publish 7 example_open (PInt 5) [] [] = (example_open, Inl AssertionError) \<and>
   is_str (PStr ''com.example.topic'') \<and> transport example_open = Some (Transport 1 False) \<and>
   \<not> send_raises (Transport 1 False) \<and>
   (\<exists>k' o'. publish 7 example_open (PStr ''com.example.topic'') [PInt 23] [] =
      (example_open\<lparr>deferreds := (deferreds example_open)(next_deferred example_open := NotCalled),
              next_deferred := Suc (next_deferred example_open),
              publish_reqs := (publish_reqs example_open)(7 \<mapsto> next_deferred example_open),
              sent := sent example_open @ [Publish 7 (PStr ''com.example.topic'') [PInt 23] k' o']\<rparr>,
       Inr (next_deferred example_open)))"
  using publish_topic_check [of "PInt 5" 7 example_open "[]" "[]" "Transport 1 False"]
    publish_topic_check [of "PStr ''com.example.topic''" 7 example_open "[PInt 23]" "[]" "Transport 1 False"]
  by (simp add: is_str_def example_open_def onOpen_def)

subsection \<open>What the replies do to the ledgers\<close>

text \<open>
  The three success branches read the ledger entry and leave every ledger as it is; the
  \<^verbatim>\<open>Error\<close> branch pops the entry from the first ledger that holds the request id.
  An \<^verbatim>\<open>Error\<close> that arrives after the success reply therefore still finds the
  entry: for a Publish or Subscribe request it pops it and calls \<^verbatim>\<open>errback\<close> on the
  completion that has fired already; for an Unsubscribe request it pops the pair and
  raises at the attribute lookup.
\<close>

lemma success_reply_keeps_ledgers:
  "publish_reqs (fst (onMessage new st (Published r p))) = publish_reqs st"
  "subscribe_reqs (fst (onMessage new st (Subscribed r s))) = subscribe_reqs st"
  "unsubscribe_reqs (fst (onMessage new st (Unsubscribed r))) = unsubscribe_reqs st"
  by (auto simp: callback_def Let_def split: option.splits deferred.splits)

lemma error_reply_pops_entry:
  "publish_reqs st r = Some d \<Longrightarrow>
     publish_reqs (fst (onMessage new st (Error r u a k))) = (publish_reqs st)(r := None)"
  "publish_reqs st r = None \<Longrightarrow> subscribe_reqs st r = Some (d, h) \<Longrightarrow>
     subscribe_reqs (fst (onMessage new st (Error r u a k))) = (subscribe_reqs st)(r := None)"
  "publish_reqs st r = None \<Longrightarrow> subscribe_reqs st r = None \<Longrightarrow> unsubscribe_reqs st r = Some (d, s) \<Longrightarrow>
     unsubscribe_reqs (fst (onMessage new st (Error r u a k))) = (unsubscribe_reqs st)(r := None)"
  by (auto simp: errback_def Let_def split: option.splits deferred.splits)

lemma error_after_success_reply:
  "publish_reqs st r = Some d \<Longrightarrow> deferreds st d \<noteq> NotCalled \<Longrightarrow>
     onMessage new st (Error r u a k) =
       (st\<lparr>publish_reqs := (publish_reqs st)(r := None)\<rparr>, Inl AlreadyCalledError)"
  "publish_reqs st r = None \<Longrightarrow> subscribe_reqs st r = Some (d, h) \<Longrightarrow> deferreds st d \<noteq> NotCalled \<Longrightarrow>
     onMessage new st (Error r u a k) =
       (st\<lparr>subscribe_reqs := (subscribe_reqs st)(r := None)\<rparr>, Inl AlreadyCalledError)"
  "publish_reqs st r = None \<Longrightarrow> subscribe_reqs st r = None \<Longrightarrow> unsubscribe_reqs st r = Some (d, s) \<Longrightarrow>
     onMessage new st (Error r u a k) =
       (st\<lparr>unsubscribe_reqs := (unsubscribe_reqs st)(r := None)\<rparr>, Inl AttributeError)"
  by (auto simp: errback_def Let_def split: option.splits deferred.splits)

text \<open>
  Claim C1 (the ledger entry of a request is removed by its success reply or by its error
  reply) does not hold of the success replies. In the session with publish request 1 in
  flight, \<^verbatim>\<open>Published(1, 99)\<close> resolves the completion and is handled, and request 1 is
  still in the Publish ledger afterwards; likewise subscribe request 1 after
  \<^verbatim>\<open>Subscribed(1, 77)\<close> and unsubscribe request 2 after \<^verbatim>\<open>Unsubscribed(2)\<close>.
\<close>

theorem success_reply_leaves_entry_pending:
  "publish_reqs example_pending 1 = Some 0 \<and>
   onMessage plain_exception example_pending (Published 1 99) =
     (example_pending\<lparr>deferreds := (deferreds example_pending)(0 := CalledBack (PInt 99))\<rparr>,
      Inr True) \<and>
   publish_reqs (fst (onMessage plain_exception example_pending (Published 1 99))) 1 = Some 0 \<and>
   subscribe_reqs example_subscribing 1 = Some (0, PCallable 3) \<and>
   subscribe_reqs (fst (onMessage plain_exception example_subscribing (Subscribed 1 77))) 1 =
     Some (0, PCallable 3) \<and>
   unsubscribe_reqs example_unsubscribing 2 = Some (1, 77) \<and>
   unsubscribe_reqs (fst (onMessage plain_exception example_unsubscribing (Unsubscribed 2))) 2 =
     Some (1, 77)"
  by (simp add: example_pending_ledgers example_eqs callback_def)
    (simp add: example_pending_def example_defs)

text \<open>
  Claim C9 (after a success reply the entry remains, and a later \<^verbatim>\<open>Error\<close> for the
  same request pops it and calls \<^verbatim>\<open>errback\<close> on the resolved completion) does not
  hold of the last step for an Unsubscribe request. After \<^verbatim>\<open>Unsubscribed(2)\<close> request
  2 is still in the Unsubscribe ledger with its completion resolved; \<^verbatim>\<open>Error(2, ..)\<close>
  pops the entry, binds \<^verbatim>\<open>d\<close> to the pair, and \<^verbatim>\<open>d.errback\<close> raises
  \<^verbatim>\<open>AttributeError\<close>: \<^verbatim>\<open>errback\<close> is not called and the completion is as it was.
\<close>

theorem error_after_unsubscribed_raises_on_pair:
  "unsubscribe_reqs example_unsubscribed 2 = Some (1, 77) \<and>
   deferreds example_unsubscribed 1 = CalledBack PNone \<and>
   onMessage plain_exception example_unsubscribed (Error 2 (PStr ''com.example.foo'') None None) =
     (example_unsubscribed\<lparr>unsubscribe_reqs := Map.empty\<rparr>, Inl AttributeError) \<and>
   deferreds
     (fst (onMessage plain_exception example_unsubscribed
            (Error 2 (PStr ''com.example.foo'') None None))) 1 = CalledBack PNone"
  by (simp add: example_eqs) (simp add: example_defs)

section \<open>Properties of the error translator\<close>

lemma example_peer_maps:
  "ecls_to_uri_pat example_peer NotFound = Some [Pattern (PStr ''com.example.gone'') URI_TARGET_HANDLER]"
  "ecls_to_uri_pat example_peer Gone = Some [Pattern (PStr ''com.example.gone'') URI_TARGET_HANDLER]"
  "ecls_to_uri_pat example_peer Timeout = Some [Pattern (PStr ''com.example.timeout'') URI_TARGET_HANDLER]"
  "ecls_to_uri_pat example_peer Denied = Some [Pattern (PStr ''com.example.denied'') URI_TARGET_HANDLER]"
  "uri_to_ecls example_peer (PStr ''com.example.gone'') = Some Gone"
  "uri_to_ecls example_peer (PStr ''com.example.timeout'') = Some Timeout"
  "uri_to_ecls example_peer (PStr ''com.example.denied'') = Some Denied"
  "uri_to_ecls example_peer (PStr ''com.example.other'') = None"
  by (simp_all add: example_peer_def peer_define_def Peer_def NotFound_def Gone_def Timeout_def
      Denied_def)

lemma example_classes:
  "\<not> app_error NotFound" "\<not> app_error Gone" "\<not> app_error Timeout" "app_error Denied"
  "Gone \<noteq> NotFound" "ApplicationErrorClass \<noteq> Timeout" "ApplicationErrorClass \<noteq> Denied"
  by (simp_all add: NotFound_def Gone_def Timeout_def Denied_def ApplicationErrorClass_def)

text \<open>
  Claim C6, as the claim states it (every exception yields an \<^verbatim>\<open>Error\<close> message),
  fails on three kinds of input, where \<^verbatim>\<open>_message_from_exception\<close> raises instead.
  (1) An application error with an empty \<^verbatim>\<open>args\<close>: \<^verbatim>\<open>exc.args[0]\<close> raises
  \<^verbatim>\<open>IndexError\<close>. (2) An application error without the attribute \<^verbatim>\<open>kwargs\<close>:
  \<^verbatim>\<open>exc.kwargs\<close> raises \<^verbatim>\<open>AttributeError\<close>. (3) A class with an empty
  \<^verbatim>\<open>_wampuris\<close>: \<^verbatim>\<open>define\<close> writes the empty list into the forward map
  before it raises, and \<^verbatim>\<open>[0]._uri\<close> then raises \<^verbatim>\<open>IndexError\<close> for every
  instance of the class.
\<close>

theorem message_from_exception_raises:
  "app_error (exc_class bare_denied) \<and>
   message_from_exception example_peer 5 bare_denied = Inl IndexError \<and>
   app_error (exc_class unkeyed_denied) \<and>
   message_from_exception example_peer 5 unkeyed_denied = Inl AttributeError \<and>
   peer_define Peer Unpatterned PNone =
     (Peer\<lparr>ecls_to_uri_pat := [Unpatterned \<mapsto> []]\<rparr>, Inl IndexError) \<and>
   \<not> app_error (exc_class unpatterned) \<and>
   message_from_exception (fst (peer_define Peer Unpatterned PNone)) 5 unpatterned = Inl IndexError"
  by (simp add: message_from_exception_def bare_denied_def unkeyed_denied_def unpatterned_def
      example_classes peer_define_def Unpatterned_def Peer_def)

text \<open>
  Claim C6, amended. The \<^verbatim>\<open>Error\<close> message that \<^verbatim>\<open>_message_from_exception\<close>
  builds carries the request id and: for an application error that has a first element in
  \<^verbatim>\<open>args\<close> and the attribute \<^verbatim>\<open>kwargs\<close>, that first element as URI, the remaining
  positional payload and the keyword payload; for any other exception, the URI of the first
  pattern registered for its class when the class is in the forward map with a non-empty
  pattern list, or the reserved URI \<^verbatim>\<open>wamp.error.runtime_error\<close> when the class is
  not in the forward map, with the payload the exception exposes: none without
  \<^verbatim>\<open>args\<close>, positional only without \<^verbatim>\<open>kwargs\<close>, both otherwise.
\<close>

theorem message_from_exception_uri:
  "(app_error (exc_class e) \<and> exc_args e = Some (u # rest) \<and> exc_kwargs e = Some kw \<longrightarrow>
      message_from_exception P r e = Inr (Error r u (Some rest) (Some kw))) \<and>
   (\<not> app_error (exc_class e) \<and> ecls_to_uri_pat P (exc_class e) = Some (p # ps) \<longrightarrow>
      message_from_exception P r e =
        Inr (Error r (uri p) (exc_args e) (if exc_args e = None then None else exc_kwargs e))) \<and>
   (\<not> app_error (exc_class e) \<and> ecls_to_uri_pat P (exc_class e) = None \<longrightarrow>
      message_from_exception P r e =
        Inr (Error r (PStr ''wamp.error.runtime_error'') (exc_args e)
               (if exc_args e = None then None else exc_kwargs e)))"
  by (auto simp: message_from_exception_def split: option.splits list.splits)

theorem message_from_exception_uri_witness:
  "app_error (exc_class denied) \<and>
   exc_args denied = Some [PStr ''com.example.other'', PInt 1] \<and> exc_kwargs denied = Some [] \<and>
   message_from_exception example_peer 5 denied =
     Inr (Error 5 (PStr ''com.example.other'') (Some [PInt 1]) (Some [])) \<and>
   \<not> app_error (exc_class not_found) \<and>
   ecls_to_uri_pat example_peer (exc_class not_found) =
     Some [Pattern (PStr ''com.example.gone'') URI_TARGET_HANDLER] \<and>
   message_from_exception example_peer 5 not_found =
     Inr (Error 5 (PStr ''com.example.gone'') (Some [PInt 1, PInt 2]) None) \<and>
   \<not> app_error (exc_class not_found) \<and> ecls_to_uri_pat Peer (exc_class not_found) = None \<and>
   message_from_exception Peer 5 not_found =
     Inr (Error 5 (PStr ''wamp.error.runtime_error'') (Some [PInt 1, PInt 2]) None)"
  using message_from_exception_uri [where e = denied and P = example_peer and r = 5
      and u = "PStr ''com.example.other''" and rest = "[PInt 1]" and kw = "[]"]
    message_from_exception_uri [where e = not_found and P = example_peer and r = 5
      and p = "Pattern (PStr ''com.example.gone'') URI_TARGET_HANDLER" and ps = "[]"]
    message_from_exception_uri [where e = not_found and P = Peer and r = 5]
  by (simp add: denied_def not_found_def example_peer_maps example_classes Peer_def)

text \<open>
  Claim C5. \<^verbatim>\<open>_exception_from_message\<close> is a total function: every
  \<^verbatim>\<open>Error\<close> message yields an error value. For a URI outside the reverse map, and
  for a mapped URI whose class raises when called on the payload of the message, the value
  is the generic application error with the URI of the message as \<^verbatim>\<open>args[0]\<close>,
  followed by the positional payload, and with the keyword payload. For a mapped URI whose
  class returns a value, that value is returned (the generic error again if the value is
  falsy).
\<close>

theorem exception_from_message_never_fails:
  "(uri_to_ecls P u = None \<longrightarrow>
      exception_from_message new P (Error r u a k) = ApplicationError u (payload a) (payload k)) \<and>
   (uri_to_ecls P u = Some c \<and> new c (payload a) (payload k) = None \<longrightarrow>
      exception_from_message new P (Error r u a k) = ApplicationError u (payload a) (payload k)) \<and>
   (uri_to_ecls P u = Some c \<and> new c (payload a) (payload k) = Some e \<longrightarrow>
      exception_from_message new P (Error r u a k) =
        (if exc_truthy e then e else ApplicationError u (payload a) (payload k))) \<and>
   exc_class (ApplicationError u (payload a) (payload k)) = ApplicationErrorClass \<and>
   exc_args (ApplicationError u (payload a) (payload k)) = Some (u # payload a) \<and>
   exc_kwargs (ApplicationError u (payload a) (payload k)) = Some (payload k)"
  by (cases a; cases k)
    (auto simp: exception_from_message_def payload_def truthy_def ApplicationError_def Let_def)

theorem exception_from_message_never_fails_witness:
  "uri_to_ecls example_peer (PStr ''com.example.other'') = None \<and>
   exception_from_message plain_exception example_peer
       (Error 5 (PStr ''com.example.other'') (Some [PInt 1]) None) =
     ApplicationError (PStr ''com.example.other'') [PInt 1] [] \<and>
   uri_to_ecls example_peer (PStr ''com.example.gone'') = Some Gone \<and>
   plain_exception Gone [PInt 1] [(''retry'', PInt 2)] = None \<and>
   exception_from_message plain_exception example_peer
       (Error 5 (PStr ''com.example.gone'') (Some [PInt 1]) (Some [(''retry'', PInt 2)])) =
     ApplicationError (PStr ''com.example.gone'') [PInt 1] [(''retry'', PInt 2)] \<and>
   plain_exception Gone [PInt 1, PInt 2] [] = Some gone \<and>
   exception_from_message plain_exception example_peer
       (Error 5 (PStr ''com.example.gone'') (Some [PInt 1, PInt 2]) None) = gone"
  using exception_from_message_never_fails [where P = example_peer and new = plain_exception
      and u = "PStr ''com.example.other''" and a = "Some [PInt 1]" and k = None and r = 5]
    exception_from_message_never_fails [where P = example_peer and new = plain_exception
      and u = "PStr ''com.example.gone''" and a = "Some [PInt 1]"
      and k = "Some [(''retry'', PInt 2)]" and r = 5 and c = Gone]
    exception_from_message_never_fails [where P = example_peer and new = plain_exception
      and u = "PStr ''com.example.gone''" and a = "Some [PInt 1, PInt 2]" and k = None
      and r = 5 and c = Gone and e = gone]
  by (simp add: example_peer_maps payload_def plain_exception_def gone_def)

text \<open>
  Claim C4, as the claim states it, fails in four ways. (1) \<open>NotFound\<close> and then
  \<open>Gone\<close> were defined for the same URI: the reverse map holds \<open>Gone\<close>, so
  \<^verbatim>\<open>NotFound(1, 2)\<close> comes back as a \<open>Gone\<close>. (2) \<open>Timeout\<close> is defined, but
  its constructor does not accept the payload its instance carries: the call raises and the
  generic application error comes back. (3) \<open>Denied\<close> is defined, but is an application
  error and travels under the URI in its \<^verbatim>\<open>args[0]\<close>, which is not mapped: the
  generic application error comes back. (4) An application error of the defined class
  \<open>Denied\<close> with an empty \<^verbatim>\<open>args\<close>, or without \<^verbatim>\<open>kwargs\<close>, yields no
  message at all: \<^verbatim>\<open>_message_from_exception\<close> raises.
\<close>

theorem error_round_trip_fails:
  "plain_exception NotFound [PInt 1, PInt 2] [] = Some not_found \<and>
   ecls_to_uri_pat example_peer NotFound =
     Some [Pattern (PStr ''com.example.gone'') URI_TARGET_HANDLER] \<and>
   message_from_exception example_peer 5 not_found =
     Inr (Error 5 (PStr ''com.example.gone'') (Some [PInt 1, PInt 2]) None) \<and>
   exception_from_message plain_exception example_peer
       (Error 5 (PStr ''com.example.gone'') (Some [PInt 1, PInt 2]) None) = gone \<and>
   exc_class gone \<noteq> exc_class not_found \<and>
   fixed_text_exception Timeout [] [] = Some timed_out \<and>
   ecls_to_uri_pat example_peer Timeout =
     Some [Pattern (PStr ''com.example.timeout'') URI_TARGET_HANDLER] \<and>
   uri_to_ecls example_peer (PStr ''com.example.timeout'') = Some Timeout \<and>
   message_from_exception example_peer 5 timed_out =
     Inr (Error 5 (PStr ''com.example.timeout'') (Some [PStr ''timed out'']) None) \<and>
   exception_from_message fixed_text_exception example_peer
       (Error 5 (PStr ''com.example.timeout'') (Some [PStr ''timed out'']) None) =
     ApplicationError (PStr ''com.example.timeout'') [PStr ''timed out''] [] \<and>
   exc_class (ApplicationError (PStr ''com.example.timeout'') [PStr ''timed out''] []) \<noteq>
     exc_class timed_out \<and>
   ecls_to_uri_pat example_peer Denied =
     Some [Pattern (PStr ''com.example.denied'') URI_TARGET_HANDLER] \<and>
   uri_to_ecls example_peer (PStr ''com.example.denied'') = Some Denied \<and>
   message_from_exception example_peer 5 denied =
     Inr (Error 5 (PStr ''com.example.other'') (Some [PInt 1]) (Some [])) \<and>
   exception_from_message plain_exception example_peer
       (Error 5 (PStr ''com.example.other'') (Some [PInt 1]) (Some [])) =
     ApplicationError (PStr ''com.example.other'') [PInt 1] [] \<and>
   exc_class (ApplicationError (PStr ''com.example.other'') [PInt 1] []) \<noteq> exc_class denied \<and>
   app_error (exc_class bare_denied) \<and>
   ecls_to_uri_pat example_peer (exc_class bare_denied) =
     Some [Pattern (PStr ''com.example.denied'') URI_TARGET_HANDLER] \<and>
   message_from_exception example_peer 5 bare_denied = Inl IndexError \<and>
   app_error (exc_class unkeyed_denied) \<and>
   ecls_to_uri_pat example_peer (exc_class unkeyed_denied) =
     Some [Pattern (PStr ''com.example.denied'') URI_TARGET_HANDLER] \<and>
   message_from_exception example_peer 5 unkeyed_denied = Inl AttributeError"
  by (simp add: example_peer_maps)
    (simp add: message_from_exception_def exception_from_message_def truthy_def
      plain_exception_def fixed_text_exception_def not_found_def gone_def timed_out_def denied_def
      bare_denied_def unkeyed_denied_def example_peer_maps example_classes ApplicationError_def)

text \<open>
  Claim C4, amended. Let \<open>e\<close> be a truthy error value. (a) If \<open>e\<close> is not an
  application error, its class is in the forward map with first pattern \<open>p\<close>, the
  reverse map sends the URI of \<open>p\<close> to the class of \<open>e\<close>, and the class called on
  the payload that \<open>e\<close> exposes returns \<open>e\<close>, then \<^verbatim>\<open>_message_from_exception\<close>
  builds a message from which \<^verbatim>\<open>_exception_from_message\<close> returns \<open>e\<close>.
  (b) The same holds if \<open>e\<close> is an application error with a first element \<open>u\<close> in
  \<^verbatim>\<open>args\<close> and the attribute \<^verbatim>\<open>kwargs\<close>, the reverse map sends \<open>u\<close> to the
  class of \<open>e\<close>, and the class called on the remaining \<^verbatim>\<open>args\<close> and on
  \<^verbatim>\<open>kwargs\<close> returns \<open>e\<close>.
\<close>

theorem error_round_trip:
  "(\<not> app_error (exc_class e) \<and>
    ecls_to_uri_pat P (exc_class e) = Some (p # ps) \<and>
    uri_to_ecls P (uri p) = Some (exc_class e) \<and>
    new (exc_class e) (payload (exc_args e))
        (if exc_args e = None then [] else payload (exc_kwargs e)) = Some e \<and>
    exc_truthy e \<longrightarrow>
      (\<exists>m. message_from_exception P r e = Inr m \<and> exception_from_message new P m = e)) \<and>
   (app_error (exc_class e) \<and>
    exc_args e = Some (u # rest) \<and> exc_kwargs e = Some kw \<and>
    uri_to_ecls P u = Some (exc_class e) \<and>
    new (exc_class e) rest kw = Some e \<and>
    exc_truthy e \<longrightarrow>
      (\<exists>m. message_from_exception P r e = Inr m \<and> exception_from_message new P m = e))"
proof (intro conjI impI)
  assume "\<not> app_error (exc_class e) \<and>
    ecls_to_uri_pat P (exc_class e) = Some (p # ps) \<and>
    uri_to_ecls P (uri p) = Some (exc_class e) \<and>
    new (exc_class e) (payload (exc_args e))
        (if exc_args e = None then [] else payload (exc_kwargs e)) = Some e \<and>
    exc_truthy e"
  then show "\<exists>m. message_from_exception P r e = Inr m \<and> exception_from_message new P m = e"
    by (cases "exc_args e"; cases "exc_kwargs e")
      (auto simp: message_from_exception_def exception_from_message_def payload_def truthy_def
        Let_def)
next
  assume b: "app_error (exc_class e) \<and>
    exc_args e = Some (u # rest) \<and> exc_kwargs e = Some kw \<and>
    uri_to_ecls P u = Some (exc_class e) \<and>
    new (exc_class e) rest kw = Some e \<and>
    exc_truthy e"
  then have m: "message_from_exception P r e = Inr (Error r u (Some rest) (Some kw))"
    by (simp add: message_from_exception_def)
  from b have "exception_from_message new P (Error r u (Some rest) (Some kw)) = e"
    by (cases rest; cases kw) (simp_all add: exception_from_message_def truthy_def)
  with m show "\<exists>m. message_from_exception P r e = Inr m \<and> exception_from_message new P m = e"
    by simp
qed

theorem error_round_trip_witness:
  "\<not> app_error (exc_class gone) \<and>
   ecls_to_uri_pat example_peer (exc_class gone) =
     Some [Pattern (PStr ''com.example.gone'') URI_TARGET_HANDLER] \<and>
   uri_to_ecls example_peer (PStr ''com.example.gone'') = Some (exc_class gone) \<and>
   plain_exception (exc_class gone) [PInt 1, PInt 2] [] = Some gone \<and>
   exc_truthy gone \<and>
   (\<exists>m. message_from_exception example_peer 5 gone = Inr m \<and>
        exception_from_message plain_exception example_peer m = gone) \<and>
   app_error (exc_class denied_here) \<and>
   exc_args denied_here = Some [PStr ''com.example.denied'', PInt 1] \<and>
   exc_kwargs denied_here = Some [] \<and>
   uri_to_ecls example_peer (PStr ''com.example.denied'') = Some (exc_class denied_here) \<and>
   fixed_uri_application_error (exc_class denied_here) [PInt 1] [] = Some denied_here \<and>
   exc_truthy denied_here \<and>
   (\<exists>m. message_from_exception example_peer 5 denied_here = Inr m \<and>
        exception_from_message fixed_uri_application_error example_peer m = denied_here)"
  using error_round_trip [where e = gone and P = example_peer and new = plain_exception
      and p = "Pattern (PStr ''com.example.gone'') URI_TARGET_HANDLER" and ps = "[]" and r = 5]
    error_round_trip [where e = denied_here and P = example_peer
      and new = fixed_uri_application_error and u = "PStr ''com.example.denied''"
      and rest = "[PInt 1]" and kw = "[]" and r = 5]
  by (simp add: gone_def denied_here_def example_peer_maps example_classes payload_def
      plain_exception_def fixed_uri_application_error_def)

end
